theory Spec2Isabelle
  imports Complex_Main
begin

section \<open>Values and errors\<close>

text \<open>
  A TypeScript \<open>number\<close> is modelled as a \<^typ>\<open>real\<close>: the layout code only adds
  measurements and compares them with \<open>!==\<close>. Rounding of IEEE doubles and the value
  \<open>NaN\<close> (for which \<open>!==\<close> is not the negation of identity) are outside the model.

  Untyped data (cell outputs, metadata values, the argument of \<open>hash\<close> and of
  \<open>JSON.stringify\<close>) is a \<open>jsval\<close>. An object is the list of its own properties in
  insertion order, which is the order \<open>Object.keys\<close>, the spread operator and
  \<open>JSON.stringify\<close> follow.
\<close>

datatype jsval =
    JUndefined
  | JNull
  | JBool bool
  | JNum real
  | JStr string
  | JArr "jsval list"
  | JObj "(string \<times> jsval) list"

type_synonym jsobject = "(string \<times> jsval) list"

text \<open>
  \<open>Error msg\<close> is \<open>throw new Error(msg)\<close>; \<open>TypeError\<close> is what the runtime throws
  when a property is read or a method is called on \<open>undefined\<close>.
\<close>

datatype error = Error string | TypeError

section \<open>Layout data\<close>

datatype PropertyFoldingState = Expanded | Collapsed

text \<open>The fields of \<open>IDiffElementLayoutInfo\<close>, as the constructor's literal lists them.\<close>

record IDiffElementLayoutInfo =
  width :: real
  editorHeight :: real
  editorMargin :: real
  metadataHeight :: real
  metadataStatusHeight :: real
  rawOutputHeight :: real
  outputTotalHeight :: real
  outputStatusHeight :: real
  bodyMargin :: real
  totalHeight :: real

text \<open>
  \<open>ILayoutInfoDelta\<close>: every key of the layout info, optional, and the optional flag
  \<open>recomputeOutput\<close>. \<open>None\<close> is \<open>undefined\<close>.
\<close>

record ILayoutInfoDelta =
  delta_width :: "real option"
  delta_editorHeight :: "real option"
  delta_editorMargin :: "real option"
  delta_metadataHeight :: "real option"
  delta_metadataStatusHeight :: "real option"
  delta_rawOutputHeight :: "real option"
  delta_outputTotalHeight :: "real option"
  delta_outputStatusHeight :: "real option"
  delta_bodyMargin :: "real option"
  delta_totalHeight :: "real option"
  delta_recomputeOutput :: "bool option"

text \<open>The object literal \<open>{}\<close> used as a delta; the call sites set one property of it.\<close>

definition emptyDelta :: ILayoutInfoDelta where
  "emptyDelta =
     \<lparr> delta_width = None, delta_editorHeight = None, delta_editorMargin = None,
       delta_metadataHeight = None, delta_metadataStatusHeight = None,
       delta_rawOutputHeight = None, delta_outputTotalHeight = None,
       delta_outputStatusHeight = None, delta_bodyMargin = None,
       delta_totalHeight = None, delta_recomputeOutput = None \<rparr>"

text \<open>
  \<open>CellDiffViewModelLayoutChangeEvent\<close>, with the properties this file assigns: the
  nine that \<open>_layout\<close> may set and \<open>outerWidth\<close>, set by the constructor's listener.
  A property that was never assigned is \<open>None\<close>.
\<close>

record CellDiffViewModelLayoutChangeEvent =
  ev_width :: "bool option"
  ev_editorHeight :: "bool option"
  ev_editorMargin :: "bool option"
  ev_metadataHeight :: "bool option"
  ev_metadataStatusHeight :: "bool option"
  ev_outputTotalHeight :: "bool option"
  ev_outputStatusHeight :: "bool option"
  ev_bodyMargin :: "bool option"
  ev_totalHeight :: "bool option"
  ev_outerWidth :: "bool option"

definition emptyEvent :: CellDiffViewModelLayoutChangeEvent where
  "emptyEvent =
     \<lparr> ev_width = None, ev_editorHeight = None, ev_editorMargin = None,
       ev_metadataHeight = None, ev_metadataStatusHeight = None,
       ev_outputTotalHeight = None, ev_outputStatusHeight = None,
       ev_bodyMargin = None, ev_totalHeight = None, ev_outerWidth = None \<rparr>"

section \<open>Collaborators\<close>

text \<open>
  What this file reads of a \<open>DiffNestedCellViewModel\<close>: its language, metadata and
  outputs, and the result of its \<open>getOutputTotalHeight()\<close>. The metadata is optional
  because the code guards it with \<open>|| {}\<close>.
\<close>

record DiffNestedCellViewModel =
  uri :: string
  language :: string
  metadata :: "jsobject option"
  outputs :: "jsval list"
  cell_outputTotalHeight :: real

text \<open>
  \<open>transientMetadata\<close> maps a metadata key to an optional boolean; a key is transient
  when its entry is truthy, that is \<open>Some True\<close>.
\<close>

record TransientOptions =
  transientOutputs :: bool
  transientMetadata :: "string \<Rightarrow> bool option"

record NotebookTextModel =
  transientOptions :: TransientOptions

datatype DiffType = Unchanged | Insert | Delete | Modified

section \<open>DiffElementViewModelBase\<close>

text \<open>
  The fields of the base class. \<open>layoutInfo\<close> is \<open>_layoutInfo\<close> and \<open>renderOutput\<close> is
  \<open>_renderOutput\<close>, each read through the getter of that name.
\<close>

record DiffElementViewModelBase =
  documentTextModel :: NotebookTextModel
  original :: "DiffNestedCellViewModel option"
  modified :: "DiffNestedCellViewModel option"
  type :: DiffType
  metadataFoldingState :: PropertyFoldingState
  outputFoldingState :: PropertyFoldingState
  layoutInfo :: IDiffElementLayoutInfo
  renderOutput :: bool

text \<open>
  The two abstract methods that \<open>_getOutputTotalHeight\<close> calls. A subclass supplies
  them; each reads the view model and returns a value or throws.
\<close>

record DiffElementMethods =
  isOutputEmpty :: "DiffElementViewModelBase \<Rightarrow> error + bool"
  getRichOutputTotalHeight :: "DiffElementViewModelBase \<Rightarrow> error + real"

text \<open>The layout info the constructor assigns.\<close>

definition initialLayoutInfo :: IDiffElementLayoutInfo where
  "initialLayoutInfo =
     \<lparr> width = 0, editorHeight = 0, editorMargin = 0, metadataHeight = 0,
       metadataStatusHeight = 25, rawOutputHeight = 0, outputTotalHeight = 0,
       outputStatusHeight = 25, bodyMargin = 32, totalHeight = 82 \<rparr>"

definition DiffElementViewModelBase_constructor ::
  "NotebookTextModel \<Rightarrow> DiffNestedCellViewModel option \<Rightarrow> DiffNestedCellViewModel option \<Rightarrow>
   DiffType \<Rightarrow> DiffElementViewModelBase" where
  "DiffElementViewModelBase_constructor doc orig modi ty =
     \<lparr> documentTextModel = doc, original = orig, modified = modi, type = ty,
       metadataFoldingState = Collapsed, outputFoldingState = Collapsed,
       layoutInfo = initialLayoutInfo, renderOutput = False \<rparr>"

text \<open>
  The event fired by the listener that the constructor registers on the editor's
  \<open>onDidChangeLayout\<close>: \<open>{ outerWidth: true }\<close>.
\<close>

definition outerWidthEvent :: CellDiffViewModelLayoutChangeEvent where
  "outerWidthEvent = emptyEvent\<lparr>ev_outerWidth := Some True\<rparr>"

text \<open>
  \<open>_getOutputTotalHeight\<close>. Folded outputs take no height; rendered outputs take one
  line of 24 when there are none and the height the subclass reports otherwise; raw
  outputs take the raw height.
\<close>

definition getOutputTotalHeight ::
  "DiffElementMethods \<Rightarrow> DiffElementViewModelBase \<Rightarrow> real \<Rightarrow> error + real" where
  "getOutputTotalHeight m this rawOutputHeight' =
     (if outputFoldingState this = Collapsed then Inr 0
      else if renderOutput this then
        (case isOutputEmpty m this of
           Inl e \<Rightarrow> Inl e
         | Inr outputEmpty \<Rightarrow> if outputEmpty then Inr 24 else getRichOutputTotalHeight m this)
      else Inr rawOutputHeight')"

text \<open>
  The comparisons of \<open>_layout\<close> that build the change event, in the order of the source:
  starting from \<open>{}\<close>, a property is set to \<open>true\<close> when the field differs.
\<close>

definition changeEventOf ::
  "IDiffElementLayoutInfo \<Rightarrow> IDiffElementLayoutInfo \<Rightarrow> CellDiffViewModelLayoutChangeEvent" where
  "changeEventOf old newLayout =
     (let e0 = emptyEvent;
          e1 = (if width newLayout \<noteq> width old then e0\<lparr>ev_width := Some True\<rparr> else e0);
          e2 = (if editorHeight newLayout \<noteq> editorHeight old
                then e1\<lparr>ev_editorHeight := Some True\<rparr> else e1);
          e3 = (if editorMargin newLayout \<noteq> editorMargin old
                then e2\<lparr>ev_editorMargin := Some True\<rparr> else e2);
          e4 = (if metadataHeight newLayout \<noteq> metadataHeight old
                then e3\<lparr>ev_metadataHeight := Some True\<rparr> else e3);
          e5 = (if metadataStatusHeight newLayout \<noteq> metadataStatusHeight old
                then e4\<lparr>ev_metadataStatusHeight := Some True\<rparr> else e4);
          e6 = (if outputTotalHeight newLayout \<noteq> outputTotalHeight old
                then e5\<lparr>ev_outputTotalHeight := Some True\<rparr> else e5);
          e7 = (if outputStatusHeight newLayout \<noteq> outputStatusHeight old
                then e6\<lparr>ev_outputStatusHeight := Some True\<rparr> else e6);
          e8 = (if bodyMargin newLayout \<noteq> bodyMargin old
                then e7\<lparr>ev_bodyMargin := Some True\<rparr> else e7);
          e9 = (if totalHeight newLayout \<noteq> totalHeight old
                then e8\<lparr>ev_totalHeight := Some True\<rparr> else e8)
      in e9)"

text \<open>
  \<open>_layout\<close>. The result is the view model with the new \<open>_layoutInfo\<close> and the event
  handed to \<open>_fireLayoutChangeEvent\<close>. When an abstract method throws, the exception
  leaves \<open>_layout\<close> before the assignment: nothing is stored and nothing is fired.
\<close>

definition layout ::
  "DiffElementMethods \<Rightarrow> DiffElementViewModelBase \<Rightarrow> ILayoutInfoDelta \<Rightarrow>
   error + (DiffElementViewModelBase \<times> CellDiffViewModelLayoutChangeEvent)" where
  "layout m this delta =
     (let cur = layoutInfo this;
          width' = (case delta_width delta of Some v \<Rightarrow> v | None \<Rightarrow> width cur);
          editorHeight' =
            (case delta_editorHeight delta of Some v \<Rightarrow> v | None \<Rightarrow> editorHeight cur);
          editorMargin' =
            (case delta_editorMargin delta of Some v \<Rightarrow> v | None \<Rightarrow> editorMargin cur);
          metadataHeight' =
            (case delta_metadataHeight delta of Some v \<Rightarrow> v | None \<Rightarrow> metadataHeight cur);
          metadataStatusHeight' =
            (case delta_metadataStatusHeight delta of
               Some v \<Rightarrow> v | None \<Rightarrow> metadataStatusHeight cur);
          rawOutputHeight' =
            (case delta_rawOutputHeight delta of Some v \<Rightarrow> v | None \<Rightarrow> rawOutputHeight cur);
          outputStatusHeight' =
            (case delta_outputStatusHeight delta of
               Some v \<Rightarrow> v | None \<Rightarrow> outputStatusHeight cur);
          bodyMargin' =
            (case delta_bodyMargin delta of Some v \<Rightarrow> v | None \<Rightarrow> bodyMargin cur)
      in case (if delta_recomputeOutput delta = Some True \<or> delta_rawOutputHeight delta \<noteq> None
               then getOutputTotalHeight m this rawOutputHeight'
               else Inr (outputTotalHeight cur)) of
           Inl e \<Rightarrow> Inl e
         | Inr outputHeight \<Rightarrow>
             (let totalHeight' = editorHeight' + editorMargin' + metadataHeight'
                    + metadataStatusHeight' + outputHeight + outputStatusHeight' + bodyMargin';
                  newLayout =
                    \<lparr> width = width', editorHeight = editorHeight',
                      editorMargin = editorMargin', metadataHeight = metadataHeight',
                      metadataStatusHeight = metadataStatusHeight',
                      rawOutputHeight = rawOutputHeight', outputTotalHeight = outputHeight,
                      outputStatusHeight = outputStatusHeight', bodyMargin = bodyMargin',
                      totalHeight = totalHeight' \<rparr>;
                  changeEvent = changeEventOf cur newLayout
              in Inr (this\<lparr>layoutInfo := newLayout\<rparr>, changeEvent)))"

text \<open>\<open>layoutChange()\<close>, also the body of every output-layout listener.\<close>

definition layoutChange ::
  "DiffElementMethods \<Rightarrow> DiffElementViewModelBase \<Rightarrow>
   error + (DiffElementViewModelBase \<times> CellDiffViewModelLayoutChangeEvent)" where
  "layoutChange m this = layout m this (emptyDelta\<lparr>delta_recomputeOutput := Some True\<rparr>)"

subsection \<open>Accessors\<close>

text \<open>Each getter throws; each setter calls \<open>_layout\<close> with a delta of one property.\<close>

definition get_rawOutputHeight :: "DiffElementViewModelBase \<Rightarrow> error + real" where
  "get_rawOutputHeight this = Inl (Error ''Use Cell.layoutInfo.rawOutputHeight'')"

definition get_outputStatusHeight :: "DiffElementViewModelBase \<Rightarrow> error + real" where
  "get_outputStatusHeight this = Inl (Error ''Use Cell.layoutInfo.outputStatusHeight'')"

definition get_editorHeight :: "DiffElementViewModelBase \<Rightarrow> error + real" where
  "get_editorHeight this = Inl (Error ''Use Cell.layoutInfo.editorHeight'')"

definition get_editorMargin :: "DiffElementViewModelBase \<Rightarrow> error + real" where
  "get_editorMargin this = Inl (Error ''Use Cell.layoutInfo.editorMargin'')"

definition get_metadataHeight :: "DiffElementViewModelBase \<Rightarrow> error + real" where
  "get_metadataHeight this = Inl (Error ''Use Cell.layoutInfo.metadataHeight'')"

definition set_rawOutputHeight ::
  "DiffElementMethods \<Rightarrow> DiffElementViewModelBase \<Rightarrow> real \<Rightarrow>
   error + (DiffElementViewModelBase \<times> CellDiffViewModelLayoutChangeEvent)" where
  "set_rawOutputHeight m this height =
     layout m this (emptyDelta\<lparr>delta_rawOutputHeight := Some height\<rparr>)"

definition set_outputStatusHeight ::
  "DiffElementMethods \<Rightarrow> DiffElementViewModelBase \<Rightarrow> real \<Rightarrow>
   error + (DiffElementViewModelBase \<times> CellDiffViewModelLayoutChangeEvent)" where
  "set_outputStatusHeight m this height =
     layout m this (emptyDelta\<lparr>delta_outputStatusHeight := Some height\<rparr>)"

definition set_editorHeight ::
  "DiffElementMethods \<Rightarrow> DiffElementViewModelBase \<Rightarrow> real \<Rightarrow>
   error + (DiffElementViewModelBase \<times> CellDiffViewModelLayoutChangeEvent)" where
  "set_editorHeight m this height =
     layout m this (emptyDelta\<lparr>delta_editorHeight := Some height\<rparr>)"

definition set_editorMargin ::
  "DiffElementMethods \<Rightarrow> DiffElementViewModelBase \<Rightarrow> real \<Rightarrow>
   error + (DiffElementViewModelBase \<times> CellDiffViewModelLayoutChangeEvent)" where
  "set_editorMargin m this margin =
     layout m this (emptyDelta\<lparr>delta_editorMargin := Some margin\<rparr>)"

definition set_metadataHeight ::
  "DiffElementMethods \<Rightarrow> DiffElementViewModelBase \<Rightarrow> real \<Rightarrow>
   error + (DiffElementViewModelBase \<times> CellDiffViewModelLayoutChangeEvent)" where
  "set_metadataHeight m this height =
     layout m this (emptyDelta\<lparr>delta_metadataHeight := Some height\<rparr>)"

section \<open>Metadata formatting\<close>

text \<open>
  The functions imported from other modules, and \<open>JSON.stringify\<close>, are parameters:
  \<open>hash\<close>, \<open>format\<close> (called with range \<open>undefined\<close> and options \<open>{}\<close>, returning a list
  of edits of some type \<open>'e\<close>) and \<open>applyEdits\<close>.
\<close>

record 'e Externals =
  hash :: "jsval \<Rightarrow> int"
  JSON_stringify :: "jsval \<Rightarrow> string"
  format :: "string \<Rightarrow> 'e list"
  applyEdits :: "string \<Rightarrow> 'e list \<Rightarrow> string"

text \<open>
  Property access on an object: \<open>obj[key]\<close> reads the property or yields \<open>undefined\<close>;
  \<open>obj[key] = v\<close> overwrites the property in place or appends a new one.
\<close>

definition obj_get :: "jsobject \<Rightarrow> string \<Rightarrow> jsval" where
  "obj_get obj key = (case map_of obj key of Some v \<Rightarrow> v | None \<Rightarrow> JUndefined)"

fun obj_set :: "jsobject \<Rightarrow> string \<Rightarrow> jsval \<Rightarrow> jsobject" where
  "obj_set [] key v = [(key, v)]"
| "obj_set ((k, w) # rest) key v =
     (if k = key then (k, v) # rest else (k, w) # obj_set rest key v)"

definition Object_keys :: "jsobject \<Rightarrow> string list" where
  "Object_keys obj = map fst obj"

text \<open>\<open>new Set(xs)\<close>, iterated: the first occurrence of every element, in order.\<close>

definition Set_of :: "string list \<Rightarrow> string list" where
  "Set_of xs = rev (remdups (rev xs))"

text \<open>
  The \<open>for\<close> loop of \<open>getFormatedMetadataJSON\<close> over the remaining keys, with
  \<open>filteredMetadata\<close> as accumulator.
\<close>

fun filterLoop ::
  "(string \<Rightarrow> bool option) \<Rightarrow> jsobject \<Rightarrow> string list \<Rightarrow> jsobject \<Rightarrow> jsobject" where
  "filterLoop transient meta [] filteredMetadata = filteredMetadata"
| "filterLoop transient meta (key # keys) filteredMetadata =
     filterLoop transient meta keys
       (if \<not> (transient key = Some True)
        then obj_set filteredMetadata key (obj_get meta key)
        else filteredMetadata)"

text \<open>The first branch of \<open>getFormatedMetadataJSON\<close>: the metadata without its transient keys.\<close>

definition filterTransient :: "NotebookTextModel \<Rightarrow> jsobject \<Rightarrow> jsobject" where
  "filterTransient documentTextModel' meta =
     filterLoop (transientMetadata (transientOptions documentTextModel')) meta
       (Set_of (Object_keys meta)) []"

text \<open>The object literal \<open>{ language, ...filteredMetadata }\<close>.\<close>

definition languageObject :: "string option \<Rightarrow> jsobject \<Rightarrow> jsobject" where
  "languageObject language' filteredMetadata =
     fold (\<lambda>(key, v) obj. obj_set obj key v) filteredMetadata
       [(''language'', case language' of Some l \<Rightarrow> JStr l | None \<Rightarrow> JUndefined)]"

definition getFormatedMetadataJSON ::
  "'e Externals \<Rightarrow> NotebookTextModel option \<Rightarrow> jsobject \<Rightarrow> string option \<Rightarrow> string" where
  "getFormatedMetadataJSON ext documentTextModel' meta language' =
     (let filteredMetadata =
            (case documentTextModel' of
               Some doc \<Rightarrow> filterTransient doc meta
             | None \<Rightarrow> meta);
          content = JSON_stringify ext (JObj (languageObject language' filteredMetadata));
          edits = format ext content;
          metadataSource = applyEdits ext content edits
      in metadataSource)"

section \<open>SideBySideDiffElementViewModel\<close>

text \<open>\<open>cell?.outputs ?? []\<close> (and \<open>|| []\<close>: an array is truthy).\<close>

definition outputsOrEmpty :: "DiffNestedCellViewModel option \<Rightarrow> jsval list" where
  "outputsOrEmpty cell = (case cell of Some c \<Rightarrow> outputs c | None \<Rightarrow> [])"

text \<open>\<open>cell?.metadata || {}\<close> (and \<open>?? {}\<close>).\<close>

definition metadataOrEmpty :: "DiffNestedCellViewModel option \<Rightarrow> jsobject" where
  "metadataOrEmpty cell =
     (case cell of
        Some c \<Rightarrow> (case metadata c of Some obj \<Rightarrow> obj | None \<Rightarrow> [])
      | None \<Rightarrow> [])"

definition SideBySide_checkIfOutputsModified ::
  "'e Externals \<Rightarrow> DiffElementViewModelBase \<Rightarrow> bool" where
  "SideBySide_checkIfOutputsModified ext this =
     (\<not> transientOutputs (transientOptions (documentTextModel this))
      \<and> hash ext (JArr (outputsOrEmpty (original this)))
          \<noteq> hash ext (JArr (outputsOrEmpty (modified this))))"

definition SideBySide_checkMetadataIfModified ::
  "'e Externals \<Rightarrow> DiffElementViewModelBase \<Rightarrow> bool" where
  "SideBySide_checkMetadataIfModified ext this =
     (hash ext (JStr (getFormatedMetadataJSON ext (Some (documentTextModel this))
                        (metadataOrEmpty (original this))
                        (map_option language (original this))))
      \<noteq> hash ext (JStr (getFormatedMetadataJSON ext (Some (documentTextModel this))
                          (metadataOrEmpty (modified this))
                          (map_option language (modified this)))))"

definition SideBySide_isOutputEmpty :: "'e Externals \<Rightarrow> DiffElementViewModelBase \<Rightarrow> bool" where
  "SideBySide_isOutputEmpty ext this =
     (if transientOutputs (transientOptions (documentTextModel this)) then True
      else if SideBySide_checkIfOutputsModified ext this then False
      else length (outputsOrEmpty (original this)) = 0)"

text \<open>
  \<open>this.original.getOutputTotalHeight()\<close> has no \<open>?.\<close>: on a missing cell it throws.
\<close>

definition SideBySide_getRichOutputTotalHeight :: "DiffElementViewModelBase \<Rightarrow> error + real" where
  "SideBySide_getRichOutputTotalHeight this =
     (case original this of
        None \<Rightarrow> Inl TypeError
      | Some orig \<Rightarrow>
          (case modified this of
             None \<Rightarrow> Inl TypeError
           | Some modi \<Rightarrow> Inr (max (cell_outputTotalHeight orig) (cell_outputTotalHeight modi))))"

definition SideBySide_methods :: "'e Externals \<Rightarrow> DiffElementMethods" where
  "SideBySide_methods ext =
     \<lparr> isOutputEmpty = (\<lambda>this. Inr (SideBySide_isOutputEmpty ext this)),
       getRichOutputTotalHeight = SideBySide_getRichOutputTotalHeight \<rparr>"

text \<open>The constructor takes both cells; the listeners it registers call \<open>layoutChange\<close>.\<close>

definition SideBySide_constructor ::
  "'e Externals \<Rightarrow> NotebookTextModel \<Rightarrow> DiffNestedCellViewModel \<Rightarrow> DiffNestedCellViewModel \<Rightarrow>
   DiffType \<Rightarrow> DiffElementViewModelBase" where
  "SideBySide_constructor ext doc orig modi ty =
     (let this0 = DiffElementViewModelBase_constructor doc (Some orig) (Some modi) ty;
          this1 = this0\<lparr>metadataFoldingState := Collapsed\<rparr>;
          this2 = this1\<lparr>outputFoldingState := Collapsed\<rparr>;
          this3 = (if SideBySide_checkMetadataIfModified ext this2
                   then this2\<lparr>metadataFoldingState := Expanded\<rparr> else this2);
          this4 = (if SideBySide_checkIfOutputsModified ext this3
                   then this3\<lparr>outputFoldingState := Expanded\<rparr> else this3)
      in this4)"

section \<open>SingleSideDiffElementViewModel\<close>

definition cellViewModel :: "DiffElementViewModelBase \<Rightarrow> DiffNestedCellViewModel option" where
  "cellViewModel this = (if type this = Insert then modified this else original this)"

text \<open>
  The constructor registers a listener on \<open>this.cellViewModel!\<close>, which throws when that
  cell is missing.
\<close>

definition SingleSide_constructor ::
  "NotebookTextModel \<Rightarrow> DiffNestedCellViewModel option \<Rightarrow> DiffNestedCellViewModel option \<Rightarrow>
   DiffType \<Rightarrow> error + DiffElementViewModelBase" where
  "SingleSide_constructor doc orig modi ty =
     (let this = DiffElementViewModelBase_constructor doc orig modi ty
      in case cellViewModel this of None \<Rightarrow> Inl TypeError | Some c \<Rightarrow> Inr this)"

definition SingleSide_checkIfOutputsModified :: "DiffElementViewModelBase \<Rightarrow> bool" where
  "SingleSide_checkIfOutputsModified this = False"

definition SingleSide_checkMetadataIfModified :: "DiffElementViewModelBase \<Rightarrow> bool" where
  "SingleSide_checkMetadataIfModified this = False"

definition SingleSide_isOutputEmpty :: "DiffElementViewModelBase \<Rightarrow> bool" where
  "SingleSide_isOutputEmpty this =
     (if transientOutputs (transientOptions (documentTextModel this)) then True
      else length (case original this of
                     Some c \<Rightarrow> outputs c
                   | None \<Rightarrow> outputsOrEmpty (modified this)) = 0)"

definition SingleSide_getRichOutputTotalHeight :: "DiffElementViewModelBase \<Rightarrow> real" where
  "SingleSide_getRichOutputTotalHeight this =
     (case cellViewModel this of Some c \<Rightarrow> cell_outputTotalHeight c | None \<Rightarrow> 0)"

definition SingleSide_methods :: DiffElementMethods where
  "SingleSide_methods =
     \<lparr> isOutputEmpty = (\<lambda>this. Inr (SingleSide_isOutputEmpty this)),
       getRichOutputTotalHeight = (\<lambda>this. Inr (SingleSide_getRichOutputTotalHeight this)) \<rparr>"

section \<open>Predicates and sample instances\<close>

text \<open>The total height is the sum of the seven vertical parts, added in the source's order.\<close>

definition totalHeightIsSum :: "IDiffElementLayoutInfo \<Rightarrow> bool" where
  "totalHeightIsSum li \<longleftrightarrow>
     totalHeight li = editorHeight li + editorMargin li + metadataHeight li
       + metadataStatusHeight li + outputTotalHeight li + outputStatusHeight li + bodyMargin li"

text \<open>What a run of \<open>_layout\<close> leaves to observe: the stored layout info and the fired event.\<close>

definition layoutOutcome ::
  "error + (DiffElementViewModelBase \<times> CellDiffViewModelLayoutChangeEvent) \<Rightarrow>
   error + (IDiffElementLayoutInfo \<times> CellDiffViewModelLayoutChangeEvent)" where
  "layoutOutcome r = (case r of Inl e \<Rightarrow> Inl e | Inr (this', ev) \<Rightarrow> Inr (layoutInfo this', ev))"

text \<open>
  Concrete inputs on which the definitions are evaluated below. The stand-ins for the
  imported functions are simple on purpose: \<open>sampleExt\<close> hashes a string or an array to
  its length and serialises an object to the concatenation of its keys.
\<close>

definition sampleExt :: "unit Externals" where
  "sampleExt =
     \<lparr> hash = (\<lambda>v. case v of JStr s \<Rightarrow> int (length s) | JArr xs \<Rightarrow> int (length xs) | _ \<Rightarrow> 0),
       JSON_stringify = (\<lambda>v. case v of JObj kvs \<Rightarrow> concat (map fst kvs) | _ \<Rightarrow> []),
       format = (\<lambda>content. []),
       applyEdits = (\<lambda>content edits. content) \<rparr>"

definition sampleDoc :: NotebookTextModel where
  "sampleDoc =
     \<lparr> transientOptions =
         \<lparr> transientOutputs = False,
           transientMetadata = (\<lambda>key. if key = ''executionOrder'' then Some True else None) \<rparr> \<rparr>"

definition sampleCellA :: DiffNestedCellViewModel where
  "sampleCellA =
     \<lparr> uri = ''cell:a'', language = ''python'',
       metadata = Some [(''editable'', JBool True), (''executionOrder'', JNum 1)],
       outputs = [JStr ''42''], cell_outputTotalHeight = 40 \<rparr>"

definition sampleCellB :: DiffNestedCellViewModel where
  "sampleCellB =
     \<lparr> uri = ''cell:b'', language = ''python'',
       metadata = Some [(''editable'', JBool True), (''executionOrder'', JNum 2)],
       outputs = [JStr ''42''], cell_outputTotalHeight = 30 \<rparr>"

definition sampleCellC :: DiffNestedCellViewModel where
  "sampleCellC =
     \<lparr> uri = ''cell:c'', language = ''python'',
       metadata = Some [(''editable'', JBool False), (''inputCollapsed'', JBool True)],
       outputs = [JStr ''42'', JStr ''43''], cell_outputTotalHeight = 55 \<rparr>"

text \<open>An inserted cell as its constructor leaves it, and the same cell with outputs unfolded.\<close>

definition sampleInsert :: DiffElementViewModelBase where
  "sampleInsert = DiffElementViewModelBase_constructor sampleDoc None (Some sampleCellA) Insert"

definition sampleInsertExpanded :: DiffElementViewModelBase where
  "sampleInsertExpanded = sampleInsert\<lparr>outputFoldingState := Expanded\<rparr>"

definition sampleInsertRendered :: DiffElementViewModelBase where
  "sampleInsertRendered = sampleInsert\<lparr>outputFoldingState := Expanded, renderOutput := True\<rparr>"

text \<open>A side-by-side row whose cells differ in a transient metadata key only.\<close>

definition sampleSideBySide :: DiffElementViewModelBase where
  "sampleSideBySide = SideBySide_constructor sampleExt sampleDoc sampleCellB sampleCellA Unchanged"

definition sampleSideBySideRendered :: DiffElementViewModelBase where
  "sampleSideBySideRendered =
     sampleSideBySide\<lparr>outputFoldingState := Expanded, renderOutput := True\<rparr>"

text \<open>A side-by-side row whose cells differ in outputs and in a kept metadata key.\<close>

definition sampleSideBySideModified :: DiffElementViewModelBase where
  "sampleSideBySideModified =
     SideBySide_constructor sampleExt sampleDoc sampleCellA sampleCellC Modified"

section \<open>Facts about the layout step\<close>

text \<open>Each property of the event is set exactly when its field differs; \<open>outerWidth\<close> never is.\<close>

lemma changeEventOf_flags:
  "ev_width (changeEventOf old new) = (if width new \<noteq> width old then Some True else None)"
  "ev_editorHeight (changeEventOf old new) =
     (if editorHeight new \<noteq> editorHeight old then Some True else None)"
  "ev_editorMargin (changeEventOf old new) =
     (if editorMargin new \<noteq> editorMargin old then Some True else None)"
  "ev_metadataHeight (changeEventOf old new) =
     (if metadataHeight new \<noteq> metadataHeight old then Some True else None)"
  "ev_metadataStatusHeight (changeEventOf old new) =
     (if metadataStatusHeight new \<noteq> metadataStatusHeight old then Some True else None)"
  "ev_outputTotalHeight (changeEventOf old new) =
     (if outputTotalHeight new \<noteq> outputTotalHeight old then Some True else None)"
  "ev_outputStatusHeight (changeEventOf old new) =
     (if outputStatusHeight new \<noteq> outputStatusHeight old then Some True else None)"
  "ev_bodyMargin (changeEventOf old new) =
     (if bodyMargin new \<noteq> bodyMargin old then Some True else None)"
  "ev_totalHeight (changeEventOf old new) =
     (if totalHeight new \<noteq> totalHeight old then Some True else None)"
  "ev_outerWidth (changeEventOf old new) = None"
  by (simp_all add: changeEventOf_def Let_def emptyEvent_def)

text \<open>
  What a returning call stores and fires: the event compares the stored layout info
  with the previous one, eight fields come from the delta or stay, the output height is
  recomputed or stays, and the rest of the view model is untouched.
\<close>

lemma layout_Inr_event:
  "layout m this delta = Inr (this', ev) \<Longrightarrow>
   ev = changeEventOf (layoutInfo this) (layoutInfo this')"
  by (auto simp: layout_def Let_def split: sum.splits)

lemma layout_Inr_fields:
  assumes "layout m this delta = Inr (this', ev)"
  shows "width (layoutInfo this') =
           (case delta_width delta of Some v \<Rightarrow> v | None \<Rightarrow> width (layoutInfo this))"
    and "editorHeight (layoutInfo this') =
           (case delta_editorHeight delta of Some v \<Rightarrow> v | None \<Rightarrow> editorHeight (layoutInfo this))"
    and "editorMargin (layoutInfo this') =
           (case delta_editorMargin delta of Some v \<Rightarrow> v | None \<Rightarrow> editorMargin (layoutInfo this))"
    and "metadataHeight (layoutInfo this') =
           (case delta_metadataHeight delta of
              Some v \<Rightarrow> v | None \<Rightarrow> metadataHeight (layoutInfo this))"
    and "metadataStatusHeight (layoutInfo this') =
           (case delta_metadataStatusHeight delta of
              Some v \<Rightarrow> v | None \<Rightarrow> metadataStatusHeight (layoutInfo this))"
    and "rawOutputHeight (layoutInfo this') =
           (case delta_rawOutputHeight delta of
              Some v \<Rightarrow> v | None \<Rightarrow> rawOutputHeight (layoutInfo this))"
    and "outputStatusHeight (layoutInfo this') =
           (case delta_outputStatusHeight delta of
              Some v \<Rightarrow> v | None \<Rightarrow> outputStatusHeight (layoutInfo this))"
    and "bodyMargin (layoutInfo this') =
           (case delta_bodyMargin delta of Some v \<Rightarrow> v | None \<Rightarrow> bodyMargin (layoutInfo this))"
  using assms by (auto simp: layout_def Let_def split: sum.splits)

lemma layout_Inr_output:
  assumes "layout m this delta = Inr (this', ev)"
  shows "Inr (outputTotalHeight (layoutInfo this')) =
           (if delta_recomputeOutput delta = Some True \<or> delta_rawOutputHeight delta \<noteq> None
            then getOutputTotalHeight m this (rawOutputHeight (layoutInfo this'))
            else Inr (outputTotalHeight (layoutInfo this)))"
  using assms by (auto simp: layout_def Let_def split: sum.splits if_splits)

lemma layout_Inr_total:
  "layout m this delta = Inr (this', ev) \<Longrightarrow> totalHeightIsSum (layoutInfo this')"
  by (auto simp: layout_def Let_def totalHeightIsSum_def split: sum.splits)

lemma layout_Inr_rest:
  "layout m this delta = Inr (this', ev) \<Longrightarrow> this' = this\<lparr>layoutInfo := layoutInfo this'\<rparr>"
  by (auto simp: layout_def Let_def split: sum.splits)

text \<open>
  \<open>_layout\<close> throws only when it recomputes the output height and an abstract method
  throws; with the methods of a single-sided row it always returns.
\<close>

lemma layout_returns:
  assumes "\<And>r. \<exists>h. getOutputTotalHeight m this r = Inr h"
  shows "\<exists>this' ev. layout m this delta = Inr (this', ev)"
proof (cases "delta_recomputeOutput delta = Some True \<or> delta_rawOutputHeight delta \<noteq> None")
  case True
  obtain h where "getOutputTotalHeight m this
      (case delta_rawOutputHeight delta of
         Some v \<Rightarrow> v | None \<Rightarrow> rawOutputHeight (layoutInfo this)) = Inr h"
    using assms by blast
  with True show ?thesis
    by (simp add: layout_def Let_def)
next
  case False
  then show ?thesis
    by (simp add: layout_def Let_def)
qed

lemma getOutputTotalHeight_Collapsed:
  "outputFoldingState this = Collapsed \<Longrightarrow> getOutputTotalHeight m this r = Inr 0"
  by (simp add: getOutputTotalHeight_def)

lemma layout_SingleSide_returns:
  "\<exists>this' ev. layout SingleSide_methods this delta = Inr (this', ev)"
  by (rule layout_returns) (simp add: getOutputTotalHeight_def SingleSide_methods_def)

lemma layout_Inl_iff:
  "layout m this delta = Inl e \<longleftrightarrow>
     (delta_recomputeOutput delta = Some True \<or> delta_rawOutputHeight delta \<noteq> None) \<and>
     getOutputTotalHeight m this
       (case delta_rawOutputHeight delta of
          Some v \<Rightarrow> v | None \<Rightarrow> rawOutputHeight (layoutInfo this)) = Inl e"
  by (auto simp: layout_def Let_def split: sum.splits)

section \<open>Sample runs\<close>

text \<open>Setting the width and the raw output height of an inserted cell with unfolded outputs.\<close>

lemma sampleInsert_fields:
  "layoutInfo sampleInsert = initialLayoutInfo"
  "outputFoldingState sampleInsert = Collapsed"
  "renderOutput sampleInsert = False"
  by (simp_all add: sampleInsert_def DiffElementViewModelBase_constructor_def)

lemma run_expanded_raw:
  "layout SingleSide_methods sampleInsertExpanded
     (emptyDelta\<lparr>delta_width := Some 300, delta_rawOutputHeight := Some 10\<rparr>)
   = Inr (sampleInsertExpanded\<lparr>layoutInfo :=
            initialLayoutInfo\<lparr>width := 300, rawOutputHeight := 10, outputTotalHeight := 10,
              totalHeight := 92\<rparr>\<rparr>,
          emptyEvent\<lparr>ev_width := Some True, ev_outputTotalHeight := Some True,
            ev_totalHeight := Some True\<rparr>)"
  by (simp add: layout_def Let_def emptyDelta_def sampleInsertExpanded_def sampleInsert_fields
      getOutputTotalHeight_def changeEventOf_def initialLayoutInfo_def emptyEvent_def)

section \<open>The total height\<close>

text \<open>
  C1: the layout info the constructors assign, and the layout info after every call of
  \<open>_layout\<close> that returns, whatever the delta and the state before, has
  \<open>totalHeight = editorHeight + editorMargin + metadataHeight + metadataStatusHeight +
  outputTotalHeight + outputStatusHeight + bodyMargin\<close>.
\<close>

theorem layout_totalHeight_is_sum:
  "totalHeightIsSum (layoutInfo (DiffElementViewModelBase_constructor doc orig modi ty)) \<and>
   totalHeightIsSum (layoutInfo (SideBySide_constructor ext doc origCell modiCell ty)) \<and>
   (SingleSide_constructor doc orig modi ty = Inr single \<longrightarrow>
      totalHeightIsSum (layoutInfo single)) \<and>
   (layout m this delta = Inr (this', ev) \<longrightarrow> totalHeightIsSum (layoutInfo this'))"
proof -
  have init: "totalHeightIsSum initialLayoutInfo"
    by (simp add: totalHeightIsSum_def initialLayoutInfo_def)
  have base: "layoutInfo (DiffElementViewModelBase_constructor d a b t) = initialLayoutInfo"
    for d a b t
    by (simp add: DiffElementViewModelBase_constructor_def)
  have side: "layoutInfo (SideBySide_constructor ext doc origCell modiCell ty) = initialLayoutInfo"
    by (simp add: SideBySide_constructor_def Let_def base)
  have single: "SingleSide_constructor doc orig modi ty = Inr single \<Longrightarrow>
      layoutInfo single = initialLayoutInfo"
    by (auto simp: SingleSide_constructor_def Let_def base split: option.splits)
  show ?thesis
    using init base side single layout_Inr_total by auto
qed

theorem layout_totalHeight_is_sum_witness:
  "SingleSide_constructor sampleDoc None (Some sampleCellA) Insert = Inr sampleInsert \<and>
   totalHeightIsSum (layoutInfo sampleInsert) \<and>
   layout SingleSide_methods sampleInsertExpanded
     (emptyDelta\<lparr>delta_width := Some 300, delta_rawOutputHeight := Some 10\<rparr>)
   = Inr (sampleInsertExpanded\<lparr>layoutInfo :=
            initialLayoutInfo\<lparr>width := 300, rawOutputHeight := 10, outputTotalHeight := 10,
              totalHeight := 92\<rparr>\<rparr>,
          emptyEvent\<lparr>ev_width := Some True, ev_outputTotalHeight := Some True,
            ev_totalHeight := Some True\<rparr>) \<and>
   totalHeightIsSum (initialLayoutInfo\<lparr>width := 300, rawOutputHeight := 10,
     outputTotalHeight := 10, totalHeight := 92\<rparr>)"
proof -
  have c: "SingleSide_constructor sampleDoc None (Some sampleCellA) Insert = Inr sampleInsert"
    by (simp add: SingleSide_constructor_def Let_def sampleInsert_def cellViewModel_def
        DiffElementViewModelBase_constructor_def)
  show ?thesis
    using c run_expanded_raw
      layout_totalHeight_is_sum [of sampleDoc None "Some sampleCellA" Insert sampleExt
        sampleCellB sampleCellA sampleInsert SingleSide_methods sampleInsertExpanded
        "emptyDelta\<lparr>delta_width := Some 300, delta_rawOutputHeight := Some 10\<rparr>"
        "sampleInsertExpanded\<lparr>layoutInfo :=
            initialLayoutInfo\<lparr>width := 300, rawOutputHeight := 10, outputTotalHeight := 10,
              totalHeight := 92\<rparr>\<rparr>"
        "emptyEvent\<lparr>ev_width := Some True, ev_outputTotalHeight := Some True,
            ev_totalHeight := Some True\<rparr>"]
    by simp
qed

section \<open>The change event\<close>


text \<open>Two runs used as concrete inputs: every field moves in the first, none in the second.\<close>

lemma run_all_fields:
  "layout SingleSide_methods sampleInsertExpanded
     \<lparr> delta_width = Some 300, delta_editorHeight = Some 100, delta_editorMargin = Some 8,
       delta_metadataHeight = Some 50, delta_metadataStatusHeight = Some 20,
       delta_rawOutputHeight = Some 10, delta_outputTotalHeight = None,
       delta_outputStatusHeight = Some 22, delta_bodyMargin = Some 16,
       delta_totalHeight = None, delta_recomputeOutput = None \<rparr>
   = Inr (sampleInsertExpanded\<lparr>layoutInfo :=
            \<lparr> width = 300, editorHeight = 100, editorMargin = 8, metadataHeight = 50,
              metadataStatusHeight = 20, rawOutputHeight = 10, outputTotalHeight = 10,
              outputStatusHeight = 22, bodyMargin = 16, totalHeight = 226 \<rparr>\<rparr>,
          \<lparr> ev_width = Some True, ev_editorHeight = Some True, ev_editorMargin = Some True,
            ev_metadataHeight = Some True, ev_metadataStatusHeight = Some True,
            ev_outputTotalHeight = Some True, ev_outputStatusHeight = Some True,
            ev_bodyMargin = Some True, ev_totalHeight = Some True, ev_outerWidth = None \<rparr>)"
  by (simp add: layout_def Let_def sampleInsertExpanded_def sampleInsert_fields
      getOutputTotalHeight_def changeEventOf_def initialLayoutInfo_def emptyEvent_def)

lemma run_no_change:
  "layout SingleSide_methods sampleInsertExpanded emptyDelta
   = Inr (sampleInsertExpanded\<lparr>layoutInfo := initialLayoutInfo\<rparr>, emptyEvent)"
  by (simp add: layout_def Let_def emptyDelta_def sampleInsertExpanded_def sampleInsert_fields
      changeEventOf_def initialLayoutInfo_def emptyEvent_def)


text \<open>
  C3, as stated: every field of the layout info whose value changes is flagged in the
  event, \<open>rawOutputHeight\<close> included. Setting the raw output height of a freshly
  constructed cell, whose outputs are folded, changes \<open>rawOutputHeight\<close> from 0 to 10
  and fires the empty event.
\<close>

theorem layout_rawOutputHeight_not_reported:
  "layout SingleSide_methods sampleInsert (emptyDelta\<lparr>delta_rawOutputHeight := Some 10\<rparr>)
   = Inr (sampleInsert\<lparr>layoutInfo := initialLayoutInfo\<lparr>rawOutputHeight := 10\<rparr>\<rparr>, emptyEvent) \<and>
   rawOutputHeight (initialLayoutInfo\<lparr>rawOutputHeight := 10\<rparr>)
     \<noteq> rawOutputHeight (layoutInfo sampleInsert)"
  by (simp add: layout_def Let_def emptyDelta_def sampleInsert_fields
      getOutputTotalHeight_def changeEventOf_def initialLayoutInfo_def emptyEvent_def)

text \<open>
  C3, amended: each of \<open>width\<close>, \<open>editorHeight\<close>, \<open>editorMargin\<close>, \<open>metadataHeight\<close>,
  \<open>metadataStatusHeight\<close>, \<open>outputTotalHeight\<close>, \<open>outputStatusHeight\<close>, \<open>bodyMargin\<close> and
  \<open>totalHeight\<close> whose value changes in a returning call of \<open>_layout\<close> is set to \<open>true\<close>
  in the fired event. \<open>rawOutputHeight\<close> is compared with nothing: its change shows in the
  event only through \<open>outputTotalHeight\<close> and \<open>totalHeight\<close>.
\<close>

theorem layout_event_flags_every_change:
  assumes "layout m this delta = Inr (this', ev)"
  shows "(width (layoutInfo this') \<noteq> width (layoutInfo this) \<longrightarrow> ev_width ev = Some True) \<and>
    (editorHeight (layoutInfo this') \<noteq> editorHeight (layoutInfo this) \<longrightarrow>
       ev_editorHeight ev = Some True) \<and>
    (editorMargin (layoutInfo this') \<noteq> editorMargin (layoutInfo this) \<longrightarrow>
       ev_editorMargin ev = Some True) \<and>
    (metadataHeight (layoutInfo this') \<noteq> metadataHeight (layoutInfo this) \<longrightarrow>
       ev_metadataHeight ev = Some True) \<and>
    (metadataStatusHeight (layoutInfo this') \<noteq> metadataStatusHeight (layoutInfo this) \<longrightarrow>
       ev_metadataStatusHeight ev = Some True) \<and>
    (outputTotalHeight (layoutInfo this') \<noteq> outputTotalHeight (layoutInfo this) \<longrightarrow>
       ev_outputTotalHeight ev = Some True) \<and>
    (outputStatusHeight (layoutInfo this') \<noteq> outputStatusHeight (layoutInfo this) \<longrightarrow>
       ev_outputStatusHeight ev = Some True) \<and>
    (bodyMargin (layoutInfo this') \<noteq> bodyMargin (layoutInfo this) \<longrightarrow>
       ev_bodyMargin ev = Some True) \<and>
    (totalHeight (layoutInfo this') \<noteq> totalHeight (layoutInfo this) \<longrightarrow>
       ev_totalHeight ev = Some True)"
proof -
  have "ev = changeEventOf (layoutInfo this) (layoutInfo this')"
    using assms by (rule layout_Inr_event)
  then show ?thesis
    by (simp add: changeEventOf_flags)
qed

theorem layout_event_flags_every_change_witness:
  "layout SingleSide_methods sampleInsertExpanded
     \<lparr> delta_width = Some 300, delta_editorHeight = Some 100, delta_editorMargin = Some 8,
       delta_metadataHeight = Some 50, delta_metadataStatusHeight = Some 20,
       delta_rawOutputHeight = Some 10, delta_outputTotalHeight = None,
       delta_outputStatusHeight = Some 22, delta_bodyMargin = Some 16,
       delta_totalHeight = None, delta_recomputeOutput = None \<rparr>
   = Inr (sampleInsertExpanded\<lparr>layoutInfo :=
            \<lparr> width = 300, editorHeight = 100, editorMargin = 8, metadataHeight = 50,
              metadataStatusHeight = 20, rawOutputHeight = 10, outputTotalHeight = 10,
              outputStatusHeight = 22, bodyMargin = 16, totalHeight = 226 \<rparr>\<rparr>,
          \<lparr> ev_width = Some True, ev_editorHeight = Some True, ev_editorMargin = Some True,
            ev_metadataHeight = Some True, ev_metadataStatusHeight = Some True,
            ev_outputTotalHeight = Some True, ev_outputStatusHeight = Some True,
            ev_bodyMargin = Some True, ev_totalHeight = Some True, ev_outerWidth = None \<rparr>) \<and>
   layoutInfo sampleInsertExpanded = initialLayoutInfo \<and>
   width initialLayoutInfo \<noteq> 300 \<and> editorHeight initialLayoutInfo \<noteq> 100 \<and>
   editorMargin initialLayoutInfo \<noteq> 8 \<and> metadataHeight initialLayoutInfo \<noteq> 50 \<and>
   metadataStatusHeight initialLayoutInfo \<noteq> 20 \<and> outputTotalHeight initialLayoutInfo \<noteq> 10 \<and>
   outputStatusHeight initialLayoutInfo \<noteq> 22 \<and> bodyMargin initialLayoutInfo \<noteq> 16 \<and>
   totalHeight initialLayoutInfo \<noteq> 226"
  using layout_event_flags_every_change [OF run_all_fields] run_all_fields
  by (simp add: sampleInsertExpanded_def sampleInsert_fields initialLayoutInfo_def)

section \<open>What a delta leaves alone\<close>

text \<open>
  C4: in a returning call of \<open>_layout\<close>, each of \<open>width\<close>, \<open>editorHeight\<close>, \<open>editorMargin\<close>,
  \<open>metadataHeight\<close>, \<open>metadataStatusHeight\<close>, \<open>rawOutputHeight\<close>, \<open>outputStatusHeight\<close> and
  \<open>bodyMargin\<close> keeps its value when the delta leaves that property undefined, and
  \<open>outputTotalHeight\<close> keeps its value when the delta neither has a truthy
  \<open>recomputeOutput\<close> nor defines \<open>rawOutputHeight\<close>.
\<close>

theorem layout_keeps_undefined_fields:
  assumes "layout m this delta = Inr (this', ev)"
  shows "(delta_width delta = None \<longrightarrow> width (layoutInfo this') = width (layoutInfo this)) \<and>
    (delta_editorHeight delta = None \<longrightarrow>
       editorHeight (layoutInfo this') = editorHeight (layoutInfo this)) \<and>
    (delta_editorMargin delta = None \<longrightarrow>
       editorMargin (layoutInfo this') = editorMargin (layoutInfo this)) \<and>
    (delta_metadataHeight delta = None \<longrightarrow>
       metadataHeight (layoutInfo this') = metadataHeight (layoutInfo this)) \<and>
    (delta_metadataStatusHeight delta = None \<longrightarrow>
       metadataStatusHeight (layoutInfo this') = metadataStatusHeight (layoutInfo this)) \<and>
    (delta_rawOutputHeight delta = None \<longrightarrow>
       rawOutputHeight (layoutInfo this') = rawOutputHeight (layoutInfo this)) \<and>
    (delta_outputStatusHeight delta = None \<longrightarrow>
       outputStatusHeight (layoutInfo this') = outputStatusHeight (layoutInfo this)) \<and>
    (delta_bodyMargin delta = None \<longrightarrow>
       bodyMargin (layoutInfo this') = bodyMargin (layoutInfo this)) \<and>
    (delta_recomputeOutput delta \<noteq> Some True \<and> delta_rawOutputHeight delta = None \<longrightarrow>
       outputTotalHeight (layoutInfo this') = outputTotalHeight (layoutInfo this))"
proof -
  have "delta_recomputeOutput delta \<noteq> Some True \<and> delta_rawOutputHeight delta = None \<longrightarrow>
      outputTotalHeight (layoutInfo this') = outputTotalHeight (layoutInfo this)"
    using layout_Inr_output [OF assms] by (auto split: if_splits)
  then show ?thesis
    using layout_Inr_fields [OF assms] by simp
qed

theorem layout_keeps_undefined_fields_witness:
  "layout SingleSide_methods sampleInsertExpanded emptyDelta
   = Inr (sampleInsertExpanded\<lparr>layoutInfo := initialLayoutInfo\<rparr>, emptyEvent) \<and>
   delta_width emptyDelta = None \<and> delta_editorHeight emptyDelta = None \<and>
   delta_editorMargin emptyDelta = None \<and> delta_metadataHeight emptyDelta = None \<and>
   delta_metadataStatusHeight emptyDelta = None \<and> delta_rawOutputHeight emptyDelta = None \<and>
   delta_outputStatusHeight emptyDelta = None \<and> delta_bodyMargin emptyDelta = None \<and>
   delta_recomputeOutput emptyDelta \<noteq> Some True \<and>
   initialLayoutInfo = layoutInfo sampleInsertExpanded"
  using layout_keeps_undefined_fields [OF run_no_change] run_no_change
  by (simp add: emptyDelta_def sampleInsertExpanded_def sampleInsert_fields)

section \<open>Determinism and folded outputs\<close>

text \<open>
  C7: two runs of \<open>_layout\<close> with the same delta, on view models (of any subclass) that
  agree on \<open>layoutInfo\<close>, \<open>outputFoldingState\<close>, \<open>renderOutput\<close> and on what \<open>isOutputEmpty()\<close>
  and \<open>getRichOutputTotalHeight()\<close> return, store the same layout info and fire the same
  event, or throw the same exception. Nothing else of the view model is read.
\<close>

theorem layout_deterministic:
  assumes "layoutInfo a = layoutInfo b"
    and "outputFoldingState a = outputFoldingState b"
    and "renderOutput a = renderOutput b"
    and "isOutputEmpty m a = isOutputEmpty n b"
    and "getRichOutputTotalHeight m a = getRichOutputTotalHeight n b"
  shows "layoutOutcome (layout m a delta) = layoutOutcome (layout n b delta)"
proof -
  have "getOutputTotalHeight m a r = getOutputTotalHeight n b r" for r
    unfolding getOutputTotalHeight_def assms(2-5) by (rule refl)
  then show ?thesis
    using assms(1) by (simp add: layout_def layoutOutcome_def Let_def split: sum.splits)
qed

text \<open>
  An inserted cell and a side-by-side row that agree on what \<open>_layout\<close> reads and differ
  in their cells and their type.
\<close>

lemma sampleRendered_fields:
  "layoutInfo sampleInsertRendered = initialLayoutInfo"
  "outputFoldingState sampleInsertRendered = Expanded"
  "renderOutput sampleInsertRendered = True"
  "isOutputEmpty SingleSide_methods sampleInsertRendered = Inr False"
  "getRichOutputTotalHeight SingleSide_methods sampleInsertRendered = Inr 40"
  "layoutInfo sampleSideBySideRendered = initialLayoutInfo"
  "outputFoldingState sampleSideBySideRendered = Expanded"
  "renderOutput sampleSideBySideRendered = True"
  "isOutputEmpty (SideBySide_methods sampleExt) sampleSideBySideRendered = Inr False"
  "getRichOutputTotalHeight (SideBySide_methods sampleExt) sampleSideBySideRendered = Inr 40"
  "type sampleInsertRendered \<noteq> type sampleSideBySideRendered"
  "original sampleInsertRendered \<noteq> original sampleSideBySideRendered"
  by (simp_all add: sampleInsertRendered_def sampleInsert_def sampleSideBySideRendered_def
      sampleSideBySide_def SideBySide_constructor_def DiffElementViewModelBase_constructor_def
      Let_def SingleSide_methods_def SideBySide_methods_def SingleSide_isOutputEmpty_def
      SingleSide_getRichOutputTotalHeight_def SideBySide_isOutputEmpty_def
      SideBySide_getRichOutputTotalHeight_def SideBySide_checkIfOutputsModified_def
      cellViewModel_def outputsOrEmpty_def sampleDoc_def sampleCellA_def sampleCellB_def
      sampleExt_def)

theorem layout_deterministic_witness:
  "layoutInfo sampleInsertRendered = layoutInfo sampleSideBySideRendered \<and>
   outputFoldingState sampleInsertRendered = outputFoldingState sampleSideBySideRendered \<and>
   renderOutput sampleInsertRendered = renderOutput sampleSideBySideRendered \<and>
   isOutputEmpty SingleSide_methods sampleInsertRendered
     = isOutputEmpty (SideBySide_methods sampleExt) sampleSideBySideRendered \<and>
   getRichOutputTotalHeight SingleSide_methods sampleInsertRendered
     = getRichOutputTotalHeight (SideBySide_methods sampleExt) sampleSideBySideRendered \<and>
   type sampleInsertRendered \<noteq> type sampleSideBySideRendered \<and>
   layoutOutcome (layout SingleSide_methods sampleInsertRendered
       (emptyDelta\<lparr>delta_recomputeOutput := Some True\<rparr>))
     = layoutOutcome (layout (SideBySide_methods sampleExt) sampleSideBySideRendered
       (emptyDelta\<lparr>delta_recomputeOutput := Some True\<rparr>)) \<and>
   layoutOutcome (layout SingleSide_methods sampleInsertRendered
       (emptyDelta\<lparr>delta_recomputeOutput := Some True\<rparr>))
     = Inr (initialLayoutInfo\<lparr>outputTotalHeight := 40, totalHeight := 122\<rparr>,
            emptyEvent\<lparr>ev_outputTotalHeight := Some True, ev_totalHeight := Some True\<rparr>)"
proof -
  have run: "layoutOutcome (layout SingleSide_methods sampleInsertRendered
       (emptyDelta\<lparr>delta_recomputeOutput := Some True\<rparr>))
     = Inr (initialLayoutInfo\<lparr>outputTotalHeight := 40, totalHeight := 122\<rparr>,
            emptyEvent\<lparr>ev_outputTotalHeight := Some True, ev_totalHeight := Some True\<rparr>)"
    by (simp add: layoutOutcome_def layout_def Let_def emptyDelta_def sampleRendered_fields
        getOutputTotalHeight_def changeEventOf_def initialLayoutInfo_def emptyEvent_def)
  show ?thesis
    using run
      layout_deterministic [of sampleInsertRendered sampleSideBySideRendered SingleSide_methods
        "SideBySide_methods sampleExt" "emptyDelta\<lparr>delta_recomputeOutput := Some True\<rparr>"]
    by (simp add: sampleRendered_fields)
qed

text \<open>
  C8: while \<open>outputFoldingState\<close> is \<open>Collapsed\<close>, a call of \<open>_layout\<close> whose delta has a
  truthy \<open>recomputeOutput\<close> or defines \<open>rawOutputHeight\<close> returns and stores
  \<open>outputTotalHeight = 0\<close>, whatever the raw height, \<open>renderOutput\<close> and the abstract
  methods are.
\<close>

theorem layout_collapsed_output_is_zero:
  assumes "outputFoldingState this = Collapsed"
    and "delta_recomputeOutput delta = Some True \<or> delta_rawOutputHeight delta \<noteq> None"
  shows "\<exists>this' ev. layout m this delta = Inr (this', ev) \<and>
           outputTotalHeight (layoutInfo this') = 0"
proof -
  have zero: "getOutputTotalHeight m this r = Inr 0" for r
    using assms(1) by (rule getOutputTotalHeight_Collapsed)
  then obtain this' ev where run: "layout m this delta = Inr (this', ev)"
    using layout_returns [of m this delta] by blast
  have "outputTotalHeight (layoutInfo this') = 0"
    using layout_Inr_output [OF run] assms(2) zero by simp
  with run show ?thesis
    by blast
qed

theorem layout_collapsed_output_is_zero_witness:
  "outputFoldingState (sampleSideBySideRendered\<lparr>outputFoldingState := Collapsed\<rparr>) = Collapsed \<and>
   renderOutput (sampleSideBySideRendered\<lparr>outputFoldingState := Collapsed\<rparr>) \<and>
   delta_rawOutputHeight (emptyDelta\<lparr>delta_rawOutputHeight := Some 77\<rparr>) \<noteq> None \<and>
   (\<exists>this' ev.
      layout (SideBySide_methods sampleExt)
        (sampleSideBySideRendered\<lparr>outputFoldingState := Collapsed\<rparr>)
        (emptyDelta\<lparr>delta_rawOutputHeight := Some 77\<rparr>) = Inr (this', ev) \<and>
      outputTotalHeight (layoutInfo this') = 0)"
  using layout_collapsed_output_is_zero
    [of "sampleSideBySideRendered\<lparr>outputFoldingState := Collapsed\<rparr>"
      "emptyDelta\<lparr>delta_rawOutputHeight := Some 77\<rparr>" "SideBySide_methods sampleExt"]
  by (simp add: emptyDelta_def sampleRendered_fields)

section \<open>Modified outputs and metadata\<close>

lemma sampleSideBySide_fields:
  "documentTextModel sampleSideBySide = sampleDoc"
  "original sampleSideBySide = Some sampleCellB"
  "modified sampleSideBySide = Some sampleCellA"
  "documentTextModel sampleSideBySideModified = sampleDoc"
  "original sampleSideBySideModified = Some sampleCellA"
  "modified sampleSideBySideModified = Some sampleCellC"
  by (simp_all add: sampleSideBySide_def sampleSideBySideModified_def SideBySide_constructor_def
      DiffElementViewModelBase_constructor_def Let_def)

text \<open>
  C5: \<open>checkIfOutputsModified\<close> of a side-by-side row returns \<open>false\<close> whenever the
  document's outputs are transient, and whenever the two cells have equal outputs
  (a missing cell counting as having none); so it returns \<open>true\<close> only for outputs that
  are not transient and differ.
\<close>

theorem SideBySide_checkIfOutputsModified_false:
  "(transientOutputs (transientOptions (documentTextModel this)) \<or>
    outputsOrEmpty (original this) = outputsOrEmpty (modified this) \<longrightarrow>
      SideBySide_checkIfOutputsModified ext this = False) \<and>
   (SideBySide_checkIfOutputsModified ext other \<longrightarrow>
      \<not> transientOutputs (transientOptions (documentTextModel other)) \<and>
      outputsOrEmpty (original other) \<noteq> outputsOrEmpty (modified other))"
  by (auto simp: SideBySide_checkIfOutputsModified_def)

theorem SideBySide_checkIfOutputsModified_false_witness:
  "outputs sampleCellB = outputs sampleCellA \<and>
   outputsOrEmpty (original sampleSideBySide) = outputsOrEmpty (modified sampleSideBySide) \<and>
   SideBySide_checkIfOutputsModified sampleExt sampleSideBySide = False \<and>
   SideBySide_checkIfOutputsModified sampleExt sampleSideBySideModified \<and>
   \<not> transientOutputs (transientOptions (documentTextModel sampleSideBySideModified)) \<and>
   outputsOrEmpty (original sampleSideBySideModified)
     \<noteq> outputsOrEmpty (modified sampleSideBySideModified)"
proof -
  have eq: "outputsOrEmpty (original sampleSideBySide) = outputsOrEmpty (modified sampleSideBySide)"
    by (simp add: sampleSideBySide_fields outputsOrEmpty_def sampleCellA_def sampleCellB_def)
  have chk: "SideBySide_checkIfOutputsModified sampleExt sampleSideBySideModified"
    by (simp add: SideBySide_checkIfOutputsModified_def sampleSideBySide_fields outputsOrEmpty_def
        sampleCellA_def sampleCellC_def sampleDoc_def sampleExt_def)
  show ?thesis
    using eq chk
      SideBySide_checkIfOutputsModified_false [of sampleSideBySide sampleExt
        sampleSideBySideModified]
    by (simp add: sampleCellA_def sampleCellB_def)
qed



section \<open>Single-sided rows\<close>

text \<open>
  C9: for a single-sided row (an inserted or a deleted cell), \<open>checkIfOutputsModified\<close>
  and \<open>checkMetadataIfModified\<close> return \<open>false\<close> in every state.
\<close>

theorem SingleSide_never_modified:
  "SingleSide_checkIfOutputsModified this = False \<and>
   SingleSide_checkMetadataIfModified this = False"
  by (simp add: SingleSide_checkIfOutputsModified_def SingleSide_checkMetadataIfModified_def)

section \<open>Accessors\<close>

text \<open>
  C10: reading \<open>rawOutputHeight\<close>, \<open>outputStatusHeight\<close>, \<open>editorHeight\<close>, \<open>editorMargin\<close> or
  \<open>metadataHeight\<close> of a view model throws an \<open>Error\<close> whose message points to
  \<open>layoutInfo\<close>, in every state; assigning one of them is a call of \<open>_layout\<close> with a delta
  that defines that single property, and when the call returns the assigned value is in
  the layout info.
\<close>

theorem getters_throw_setters_layout:
  "get_rawOutputHeight this = Inl (Error ''Use Cell.layoutInfo.rawOutputHeight'') \<and>
   get_outputStatusHeight this = Inl (Error ''Use Cell.layoutInfo.outputStatusHeight'') \<and>
   get_editorHeight this = Inl (Error ''Use Cell.layoutInfo.editorHeight'') \<and>
   get_editorMargin this = Inl (Error ''Use Cell.layoutInfo.editorMargin'') \<and>
   get_metadataHeight this = Inl (Error ''Use Cell.layoutInfo.metadataHeight'') \<and>
   set_rawOutputHeight m this v
     = layout m this (emptyDelta\<lparr>delta_rawOutputHeight := Some v\<rparr>) \<and>
   set_outputStatusHeight m this v
     = layout m this (emptyDelta\<lparr>delta_outputStatusHeight := Some v\<rparr>) \<and>
   set_editorHeight m this v = layout m this (emptyDelta\<lparr>delta_editorHeight := Some v\<rparr>) \<and>
   set_editorMargin m this v = layout m this (emptyDelta\<lparr>delta_editorMargin := Some v\<rparr>) \<and>
   set_metadataHeight m this v = layout m this (emptyDelta\<lparr>delta_metadataHeight := Some v\<rparr>) \<and>
   (set_rawOutputHeight m this v = Inr (this', ev) \<longrightarrow>
      rawOutputHeight (layoutInfo this') = v) \<and>
   (set_outputStatusHeight m this v = Inr (this', ev) \<longrightarrow>
      outputStatusHeight (layoutInfo this') = v) \<and>
   (set_editorHeight m this v = Inr (this', ev) \<longrightarrow> editorHeight (layoutInfo this') = v) \<and>
   (set_editorMargin m this v = Inr (this', ev) \<longrightarrow> editorMargin (layoutInfo this') = v) \<and>
   (set_metadataHeight m this v = Inr (this', ev) \<longrightarrow>
      metadataHeight (layoutInfo this') = v)"
proof -
  have stored:
    "layout m this (emptyDelta\<lparr>delta_rawOutputHeight := Some v\<rparr>) = Inr (this', ev) \<Longrightarrow>
       rawOutputHeight (layoutInfo this') = v"
    "layout m this (emptyDelta\<lparr>delta_outputStatusHeight := Some v\<rparr>) = Inr (this', ev) \<Longrightarrow>
       outputStatusHeight (layoutInfo this') = v"
    "layout m this (emptyDelta\<lparr>delta_editorHeight := Some v\<rparr>) = Inr (this', ev) \<Longrightarrow>
       editorHeight (layoutInfo this') = v"
    "layout m this (emptyDelta\<lparr>delta_editorMargin := Some v\<rparr>) = Inr (this', ev) \<Longrightarrow>
       editorMargin (layoutInfo this') = v"
    "layout m this (emptyDelta\<lparr>delta_metadataHeight := Some v\<rparr>) = Inr (this', ev) \<Longrightarrow>
       metadataHeight (layoutInfo this') = v"
    by (simp_all add: layout_Inr_fields)
  show ?thesis
    unfolding get_rawOutputHeight_def get_outputStatusHeight_def get_editorHeight_def
      get_editorMargin_def get_metadataHeight_def set_rawOutputHeight_def
      set_outputStatusHeight_def set_editorHeight_def set_editorMargin_def
      set_metadataHeight_def
    using stored by simp
qed

text \<open>The five setters, run on the inserted cell.\<close>

lemma run_set_editorHeight:
  "set_editorHeight SingleSide_methods sampleInsert 120
   = Inr (sampleInsert\<lparr>layoutInfo := initialLayoutInfo\<lparr>editorHeight := 120, totalHeight := 202\<rparr>\<rparr>,
          emptyEvent\<lparr>ev_editorHeight := Some True, ev_totalHeight := Some True\<rparr>)"
  by (simp add: set_editorHeight_def layout_def Let_def emptyDelta_def sampleInsert_fields
      changeEventOf_def initialLayoutInfo_def emptyEvent_def)

lemma run_set_editorMargin:
  "set_editorMargin SingleSide_methods sampleInsert 120
   = Inr (sampleInsert\<lparr>layoutInfo := initialLayoutInfo\<lparr>editorMargin := 120, totalHeight := 202\<rparr>\<rparr>,
          emptyEvent\<lparr>ev_editorMargin := Some True, ev_totalHeight := Some True\<rparr>)"
  by (simp add: set_editorMargin_def layout_def Let_def emptyDelta_def sampleInsert_fields
      changeEventOf_def initialLayoutInfo_def emptyEvent_def)

lemma run_set_metadataHeight:
  "set_metadataHeight SingleSide_methods sampleInsert 120
   = Inr (sampleInsert\<lparr>layoutInfo := initialLayoutInfo\<lparr>metadataHeight := 120, totalHeight := 202\<rparr>\<rparr>,
          emptyEvent\<lparr>ev_metadataHeight := Some True, ev_totalHeight := Some True\<rparr>)"
  by (simp add: set_metadataHeight_def layout_def Let_def emptyDelta_def sampleInsert_fields
      changeEventOf_def initialLayoutInfo_def emptyEvent_def)

lemma run_set_outputStatusHeight:
  "set_outputStatusHeight SingleSide_methods sampleInsert 120
   = Inr (sampleInsert\<lparr>layoutInfo :=
            initialLayoutInfo\<lparr>outputStatusHeight := 120, totalHeight := 177\<rparr>\<rparr>,
          emptyEvent\<lparr>ev_outputStatusHeight := Some True, ev_totalHeight := Some True\<rparr>)"
  by (simp add: set_outputStatusHeight_def layout_def Let_def emptyDelta_def sampleInsert_fields
      changeEventOf_def initialLayoutInfo_def emptyEvent_def)

lemma run_set_rawOutputHeight:
  "set_rawOutputHeight SingleSide_methods sampleInsertExpanded 120
   = Inr (sampleInsertExpanded\<lparr>layoutInfo :=
            initialLayoutInfo\<lparr>rawOutputHeight := 120, outputTotalHeight := 120,
              totalHeight := 202\<rparr>\<rparr>,
          emptyEvent\<lparr>ev_outputTotalHeight := Some True, ev_totalHeight := Some True\<rparr>)"
  by (simp add: set_rawOutputHeight_def layout_def Let_def emptyDelta_def
      sampleInsertExpanded_def sampleInsert_fields getOutputTotalHeight_def
      changeEventOf_def initialLayoutInfo_def emptyEvent_def)

theorem getters_throw_setters_layout_witness:
  "get_editorHeight sampleInsert = Inl (Error ''Use Cell.layoutInfo.editorHeight'') \<and>
   set_rawOutputHeight SingleSide_methods sampleInsertExpanded 120
   = Inr (sampleInsertExpanded\<lparr>layoutInfo :=
            initialLayoutInfo\<lparr>rawOutputHeight := 120, outputTotalHeight := 120,
              totalHeight := 202\<rparr>\<rparr>,
          emptyEvent\<lparr>ev_outputTotalHeight := Some True, ev_totalHeight := Some True\<rparr>) \<and>
   rawOutputHeight (initialLayoutInfo\<lparr>rawOutputHeight := 120, outputTotalHeight := 120,
     totalHeight := 202\<rparr>) = 120 \<and>
   set_outputStatusHeight SingleSide_methods sampleInsert 120
   = Inr (sampleInsert\<lparr>layoutInfo :=
            initialLayoutInfo\<lparr>outputStatusHeight := 120, totalHeight := 177\<rparr>\<rparr>,
          emptyEvent\<lparr>ev_outputStatusHeight := Some True, ev_totalHeight := Some True\<rparr>) \<and>
   outputStatusHeight (initialLayoutInfo\<lparr>outputStatusHeight := 120, totalHeight := 177\<rparr>) = 120 \<and>
   set_editorHeight SingleSide_methods sampleInsert 120
   = Inr (sampleInsert\<lparr>layoutInfo := initialLayoutInfo\<lparr>editorHeight := 120, totalHeight := 202\<rparr>\<rparr>,
          emptyEvent\<lparr>ev_editorHeight := Some True, ev_totalHeight := Some True\<rparr>) \<and>
   editorHeight (initialLayoutInfo\<lparr>editorHeight := 120, totalHeight := 202\<rparr>) = 120 \<and>
   set_editorMargin SingleSide_methods sampleInsert 120
   = Inr (sampleInsert\<lparr>layoutInfo := initialLayoutInfo\<lparr>editorMargin := 120, totalHeight := 202\<rparr>\<rparr>,
          emptyEvent\<lparr>ev_editorMargin := Some True, ev_totalHeight := Some True\<rparr>) \<and>
   editorMargin (initialLayoutInfo\<lparr>editorMargin := 120, totalHeight := 202\<rparr>) = 120 \<and>
   set_metadataHeight SingleSide_methods sampleInsert 120
   = Inr (sampleInsert\<lparr>layoutInfo := initialLayoutInfo\<lparr>metadataHeight := 120, totalHeight := 202\<rparr>\<rparr>,
          emptyEvent\<lparr>ev_metadataHeight := Some True, ev_totalHeight := Some True\<rparr>) \<and>
   metadataHeight (initialLayoutInfo\<lparr>metadataHeight := 120, totalHeight := 202\<rparr>) = 120"
proof -
  note all = getters_throw_setters_layout
  note getter = all [THEN conjunct2, THEN conjunct2, THEN conjunct1]
  note stored = all [THEN conjunct2, THEN conjunct2, THEN conjunct2, THEN conjunct2,
    THEN conjunct2, THEN conjunct2, THEN conjunct2, THEN conjunct2, THEN conjunct2,
    THEN conjunct2]
  have raw: "rawOutputHeight (initialLayoutInfo\<lparr>rawOutputHeight := 120,
      outputTotalHeight := 120, totalHeight := 202\<rparr>) = 120"
    using stored [THEN conjunct1, THEN mp, OF run_set_rawOutputHeight] by simp
  have status: "outputStatusHeight (initialLayoutInfo\<lparr>outputStatusHeight := 120,
      totalHeight := 177\<rparr>) = 120"
    using stored [THEN conjunct2, THEN conjunct1, THEN mp, OF run_set_outputStatusHeight]
    by simp
  have editor: "editorHeight (initialLayoutInfo\<lparr>editorHeight := 120, totalHeight := 202\<rparr>) = 120"
    using stored [THEN conjunct2, THEN conjunct2, THEN conjunct1, THEN mp,
        OF run_set_editorHeight]
    by simp
  have margin: "editorMargin (initialLayoutInfo\<lparr>editorMargin := 120, totalHeight := 202\<rparr>) = 120"
    using stored [THEN conjunct2, THEN conjunct2, THEN conjunct2, THEN conjunct1, THEN mp,
        OF run_set_editorMargin]
    by simp
  have meta: "metadataHeight (initialLayoutInfo\<lparr>metadataHeight := 120, totalHeight := 202\<rparr>) = 120"
    using stored [THEN conjunct2, THEN conjunct2, THEN conjunct2, THEN conjunct2, THEN mp,
        OF run_set_metadataHeight]
    by simp
  show ?thesis
    by (intro conjI getter run_set_rawOutputHeight raw run_set_outputStatusHeight status
        run_set_editorHeight editor run_set_editorMargin margin run_set_metadataHeight meta)
qed

end
